theory Spec2Isabelle
  imports Main "HOL-Library.Word"
begin

section \<open>The principal store (\<^verbatim>\<open>repo/user_repo.go\<close>)\<close>

text \<open>
  The Go struct \<^verbatim>\<open>User{ID uint; Username string; AuthId string}\<close>. Go's \<^verbatim>\<open>uint\<close> is a
  64-bit unsigned integer on the platforms the service runs on.
\<close>

type_synonym uint = "64 word"

record User =
  ID :: uint
  Username :: string
  AuthId :: string

text \<open>The zero value \<^verbatim>\<open>User{}\<close>.\<close>

definition User_zero :: User where
  "User_zero = \<lparr>ID = 0, Username = [], AuthId = []\<rparr>"

text \<open>
  A \<^verbatim>\<open>context.Context\<close>: either the placeholder \<^verbatim>\<open>context.TODO()\<close>, which is never
  cancelled, or the context of an inbound request, which carries whether the request has
  been cancelled or has timed out.
\<close>

datatype ctx = TODO | RequestCtx bool

fun ctx_done :: "ctx \<Rightarrow> bool" where
  "ctx_done TODO = False"
| "ctx_done (RequestCtx cancelled) = cancelled"

datatype db_error = ContextCanceled | StoreUnavailable | ErrNoRows

text \<open>
  The connection pool \<^verbatim>\<open>*pgxpool.Pool\<close> with the \<^verbatim>\<open>users\<close> table behind it. A row has
  the columns \<^verbatim>\<open>id, username, auth_id\<close> that the three statements of the file name.
\<close>

text \<open>
  Modelled from the spec: the declaration of the \<^verbatim>\<open>users\<close> table (the migration that
  creates it) is not among the sources. The spec says the store does not enforce one row
  per \<^verbatim>\<open>external_auth_id\<close>, so the table is a list of rows with no uniqueness constraint
  on \<^verbatim>\<open>auth_id\<close>, and \<^verbatim>\<open>id\<close> is assigned by the table from a counter.
\<close>

record users_row =
  row_id :: uint
  row_username :: string
  row_auth_id :: string

record pool =
  users :: "users_row list"
  next_id :: uint
  available :: bool

text \<open>
  Every call on the pool first needs a connection under the context it is given: a
  context that is done aborts the call, an unreachable store fails it.
\<close>

definition acquire :: "pool \<Rightarrow> ctx \<Rightarrow> db_error option" where
  "acquire db ctx =
     (if ctx_done ctx then Some ContextCanceled
      else if \<not> available db then Some StoreUnavailable
      else None)"

text \<open>
  \<^verbatim>\<open>db.QueryRow(ctx, "select id, username, auth_id from users where users.id = $1", id).Scan(...)\<close>:
  the first matching row, or \<^verbatim>\<open>ErrNoRows\<close>.
\<close>

definition select_user_by_id ::
  "pool \<Rightarrow> ctx \<Rightarrow> uint \<Rightarrow> db_error + (uint \<times> string \<times> string)" where
  "select_user_by_id db ctx i =
     (case acquire db ctx of
        Some err \<Rightarrow> Inl err
      | None \<Rightarrow>
          (case filter (\<lambda>r. row_id r = i) (users db) of
             [] \<Rightarrow> Inl ErrNoRows
           | r # _ \<Rightarrow> Inr (row_id r, row_username r, row_auth_id r)))"

text \<open>
  \<^verbatim>\<open>db.QueryRow(ctx, "SELECT EXISTS(select 1 from users where auth_id=$1)", authId).Scan(&exists)\<close>.
\<close>

definition select_exists_auth_id :: "pool \<Rightarrow> ctx \<Rightarrow> string \<Rightarrow> db_error + bool" where
  "select_exists_auth_id db ctx a =
     (case acquire db ctx of
        Some err \<Rightarrow> Inl err
      | None \<Rightarrow> Inr (\<exists>r \<in> set (users db). row_auth_id r = a))"

text \<open>
  \<^verbatim>\<open>db.Exec(ctx, "INSERT INTO users (username, auth_id) VALUES ($1, $2)", username, authId)\<close>:
  a plain insert; the table assigns the id.
\<close>

definition insert_user :: "pool \<Rightarrow> ctx \<Rightarrow> string \<Rightarrow> string \<Rightarrow> db_error option \<times> pool" where
  "insert_user db ctx username authId =
     (case acquire db ctx of
        Some err \<Rightarrow> (Some err, db)
      | None \<Rightarrow>
          (None, db\<lparr>users := users db @ [\<lparr>row_id = next_id db, row_username = username,
                                            row_auth_id = authId\<rparr>],
                     next_id := next_id db + 1\<rparr>))"

text \<open>
  \<^verbatim>\<open>func (rr UserRepo) Get(ctx context.Context, id uint) (error, User)\<close>. The query runs
  under \<^verbatim>\<open>context.TODO()\<close>, not under \<^verbatim>\<open>ctx\<close>; the result carries the requested
  \<^verbatim>\<open>id\<close>, not the scanned one.
\<close>

definition UserRepo_Get :: "pool \<Rightarrow> ctx \<Rightarrow> uint \<Rightarrow> db_error option \<times> User" where
  "UserRepo_Get db ctx i =
     (case select_user_by_id db TODO i of
        Inl err \<Rightarrow> (Some err, User_zero)
      | Inr (userId, username, authId) \<Rightarrow>
          (None, \<lparr>ID = i, Username = username, AuthId = authId\<rparr>))"

text \<open>
  \<^verbatim>\<open>func (rr UserRepo) Exists(ctx context.Context, authId string) (error, bool)\<close>:
  \<^verbatim>\<open>exists\<close> keeps its zero value when the scan fails.
\<close>

definition UserRepo_Exists :: "pool \<Rightarrow> ctx \<Rightarrow> string \<Rightarrow> db_error option \<times> bool" where
  "UserRepo_Exists db ctx authId =
     (case select_exists_auth_id db ctx authId of
        Inl err \<Rightarrow> (Some err, False)
      | Inr b \<Rightarrow> (None, b))"

text \<open>\<^verbatim>\<open>func (rr UserRepo) Add(ctx context.Context, username string, authId string) error\<close>.\<close>

definition UserRepo_Add :: "pool \<Rightarrow> ctx \<Rightarrow> string \<Rightarrow> string \<Rightarrow> db_error option \<times> pool" where
  "UserRepo_Add db ctx username authId = insert_user db ctx username authId"

text \<open>At most one row of the table for each \<^verbatim>\<open>auth_id\<close>.\<close>

definition unique_auth :: "pool \<Rightarrow> bool" where
  "unique_auth db = distinct (map row_auth_id (users db))"

text \<open>Two example pools used to evaluate the operations.\<close>

definition pool_empty :: pool where
  "pool_empty = \<lparr>users = [], next_id = 1, available = True\<rparr>"

definition pool_ada :: pool where
  "pool_ada = \<lparr>users = [\<lparr>row_id = 1, row_username = ''ada'', row_auth_id = ''auth0|ada''\<rparr>],
               next_id = 2, available = True\<rparr>"

section \<open>Parsing the date of the list-notes-since route\<close>

text \<open>
  \<^verbatim>\<open>HomeSinceHandler\<close> calls \<^verbatim>\<open>time.Parse(time.RFC3339, date+"T00:00:00+11:00")\<close>. The
  standard library is not part of the repository; its parser is written out here for the
  one layout the handler uses, \<^verbatim>\<open>2006-01-02T15:04:05Z07:00\<close>, chunk by chunk as
  \<^verbatim>\<open>time.parse\<close> walks it. A \<^verbatim>\<open>time.Time\<close> is kept as its civil fields and the
  offset of its zone in seconds east of UTC, which together fix the instant.
\<close>

record Time =
  year :: nat
  month :: nat
  day :: nat
  hour :: nat
  minute :: nat
  second :: nat
  nsec :: nat
  zoneOffset :: int

datatype parse_error = errBad | OutOfRange string | ExtraText string

definition isDigit :: "char \<Rightarrow> bool" where
  "isDigit c = (48 \<le> (of_char c :: nat) \<and> (of_char c :: nat) \<le> 57)"

definition digit :: "char \<Rightarrow> nat" where
  "digit c = of_char c - 48"

text \<open>
  \<^verbatim>\<open>getnum(s, fixed)\<close>: one or two leading digits; with \<^verbatim>\<open>fixed\<close> exactly two.
\<close>

fun getnum :: "string \<Rightarrow> bool \<Rightarrow> (nat \<times> string) option" where
  "getnum [] fixed = None"
| "getnum [a] fixed =
     (if \<not> isDigit a then None else if fixed then None else Some (digit a, []))"
| "getnum (a # b # s) fixed =
     (if \<not> isDigit a then None
      else if \<not> isDigit b then (if fixed then None else Some (digit a, b # s))
      else Some (digit a * 10 + digit b, s))"

text \<open>
  \<^verbatim>\<open>skip(value, prefix)\<close>: the literal text between two chunks of the layout. The
  layout has no space, so the rule for spaces is left out.
\<close>

fun skip :: "string \<Rightarrow> string \<Rightarrow> string option" where
  "skip val [] = Some val"
| "skip [] (p # ps) = None"
| "skip (v # vs) (p # ps) = (if v = p then skip vs ps else None)"

definition leadingInt :: "string \<Rightarrow> nat" where
  "leadingInt s = foldl (\<lambda>x c. x * 10 + digit c) 0 s"

text \<open>
  The chunk \<^verbatim>\<open>2006\<close>: four characters, the first a digit, read by \<^verbatim>\<open>atoi\<close>, which
  fails unless all four are digits.
\<close>

definition getyear :: "string \<Rightarrow> (nat \<times> string) option" where
  "getyear val =
     (case val of
        a # b # c # d # rest \<Rightarrow>
          if isDigit a \<and> isDigit b \<and> isDigit c \<and> isDigit d
          then Some (leadingInt [a, b, c, d], rest) else None
      | _ \<Rightarrow> None)"

definition commaOrPeriod :: "char \<Rightarrow> bool" where
  "commaOrPeriod c = (c = CHR ''.'' \<or> c = CHR '','')"

text \<open>
  After the seconds the parser accepts a fractional second that the layout does not
  name: a comma or period and digits, of which nine count (\<^verbatim>\<open>parseNanoseconds\<close>).
\<close>

definition fraction :: "string \<Rightarrow> nat \<times> string" where
  "fraction val =
     (case val of
        c # d # rest \<Rightarrow>
          if commaOrPeriod c \<and> isDigit d
          then (let ds = take 9 (d # takeWhile isDigit rest)
                in (leadingInt ds * 10 ^ (9 - length ds), dropWhile isDigit rest))
          else (0, val)
      | _ \<Rightarrow> (0, val))"

text \<open>The chunk \<^verbatim>\<open>Z07:00\<close>: a \<^verbatim>\<open>Z\<close>, or a sign, two digits, a colon and two digits.\<close>

definition getzone :: "string \<Rightarrow> (int \<times> string) option" where
  "getzone val =
     (case val of
        [] \<Rightarrow> None
      | sign # zs \<Rightarrow>
          if sign = CHR ''Z'' then Some (0, zs)
          else (case zs of
                  h1 # h2 # colon # m1 # m2 # rest \<Rightarrow>
                    if colon \<noteq> CHR '':'' then None
                    else (case getnum [h1, h2] True of
                            None \<Rightarrow> None
                          | Some (hr, _) \<Rightarrow>
                              (case getnum [m1, m2] True of
                                 None \<Rightarrow> None
                               | Some (mm, _) \<Rightarrow>
                                   if sign = CHR ''+'' then Some (int ((hr * 60 + mm) * 60), rest)
                                   else if sign = CHR ''-''
                                   then Some (- int ((hr * 60 + mm) * 60), rest)
                                   else None))
                | _ \<Rightarrow> None))"

definition isLeap :: "nat \<Rightarrow> bool" where
  "isLeap y = (y mod 4 = 0 \<and> (y mod 100 \<noteq> 0 \<or> y mod 400 = 0))"

definition daysIn :: "nat \<Rightarrow> nat \<Rightarrow> nat" where
  "daysIn m y =
     (if m = 2 then (if isLeap y then 29 else 28)
      else if m = 4 \<or> m = 6 \<or> m = 9 \<or> m = 11 then 30 else 31)"

text \<open>The chunks \<^verbatim>\<open>2006-01-02\<close>: year, month (checked against 1..12 at once) and day.\<close>

definition parse_date :: "string \<Rightarrow> parse_error + (nat \<times> nat \<times> nat \<times> string)" where
  "parse_date val =
     (case getyear val of
        None \<Rightarrow> Inl errBad
      | Some (y, v1) \<Rightarrow>
     (case skip v1 ''-'' of
        None \<Rightarrow> Inl errBad
      | Some v2 \<Rightarrow>
     (case getnum v2 True of
        None \<Rightarrow> Inl errBad
      | Some (m, v3) \<Rightarrow>
          if m \<le> 0 \<or> 12 < m then Inl (OutOfRange ''month'') else
     (case skip v3 ''-'' of
        None \<Rightarrow> Inl errBad
      | Some v4 \<Rightarrow>
     (case getnum v4 True of
        None \<Rightarrow> Inl errBad
      | Some (d, v5) \<Rightarrow> Inr (y, m, d, v5))))))"

text \<open>
  The chunks \<^verbatim>\<open>T15:04:05Z07:00\<close> and the end of the input: hour (one or two digits),
  minute, second, the optional fraction, the zone, and nothing after it.
\<close>

definition parse_clock ::
  "string \<Rightarrow> parse_error + (nat \<times> nat \<times> nat \<times> nat \<times> int)" where
  "parse_clock val =
     (case skip val ''T'' of
        None \<Rightarrow> Inl errBad
      | Some v1 \<Rightarrow>
     (case getnum v1 False of
        None \<Rightarrow> Inl errBad
      | Some (h, v2) \<Rightarrow>
          if 24 \<le> h then Inl (OutOfRange ''hour'') else
     (case skip v2 '':'' of
        None \<Rightarrow> Inl errBad
      | Some v3 \<Rightarrow>
     (case getnum v3 True of
        None \<Rightarrow> Inl errBad
      | Some (mi, v4) \<Rightarrow>
          if 60 \<le> mi then Inl (OutOfRange ''minute'') else
     (case skip v4 '':'' of
        None \<Rightarrow> Inl errBad
      | Some v5 \<Rightarrow>
     (case getnum v5 True of
        None \<Rightarrow> Inl errBad
      | Some (s, v6) \<Rightarrow>
          if 60 \<le> s then Inl (OutOfRange ''second'') else
     (case fraction v6 of
        (ns, v7) \<Rightarrow>
     (case getzone v7 of
        None \<Rightarrow> Inl errBad
      | Some (off, v8) \<Rightarrow>
          if v8 \<noteq> [] then Inl (ExtraText v8)
          else Inr (h, mi, s, ns, off)))))))))"

text \<open>
  \<^verbatim>\<open>time.Parse(time.RFC3339, value)\<close>: the day of the month is validated last, against
  the month and the year.
\<close>

definition time_Parse_RFC3339 :: "string \<Rightarrow> parse_error + Time" where
  "time_Parse_RFC3339 val =
     (case parse_date val of
        Inl err \<Rightarrow> Inl err
      | Inr (y, m, d, rest) \<Rightarrow>
     (case parse_clock rest of
        Inl err \<Rightarrow> Inl err
      | Inr (h, mi, s, ns, off) \<Rightarrow>
          if d < 1 \<or> daysIn m y < d then Inl (OutOfRange ''day'')
          else Inr \<lparr>year = y, month = m, day = d, hour = h, minute = mi, second = s,
                     nsec = ns, zoneOffset = off\<rparr>))"

text \<open>
  What the claim about the route says, in its own words, to compare the parser with: a
  calendar date is written \<^verbatim>\<open>YYYY-MM-DD\<close> with a month of the year and a day of that
  month, and it stands for midnight of that date at the offset +11:00.
\<close>

definition calendar_date :: "string \<Rightarrow> (nat \<times> nat \<times> nat) option" where
  "calendar_date s =
     (case s of
        [y1, y2, y3, y4, h1, m1, m2, h2, d1, d2] \<Rightarrow>
          (let y = digit y1 * 1000 + digit y2 * 100 + digit y3 * 10 + digit y4;
               m = digit m1 * 10 + digit m2;
               d = digit d1 * 10 + digit d2
           in if isDigit y1 \<and> isDigit y2 \<and> isDigit y3 \<and> isDigit y4 \<and> h1 = CHR ''-''
                 \<and> isDigit m1 \<and> isDigit m2 \<and> h2 = CHR ''-'' \<and> isDigit d1 \<and> isDigit d2
                 \<and> 1 \<le> m \<and> m \<le> 12 \<and> 1 \<le> d \<and> d \<le> daysIn m y
              then Some (y, m, d) else None)
      | _ \<Rightarrow> None)"

definition midnight_plus11 :: "nat \<times> nat \<times> nat \<Rightarrow> Time" where
  "midnight_plus11 ymd =
     (case ymd of (y, m, d) \<Rightarrow>
        \<lparr>year = y, month = m, day = d, hour = 0, minute = 0, second = 0, nsec = 0,
         zoneOffset = 11 * 3600\<rparr>)"

section \<open>The request handlers and the session gate (the main package)\<close>

text \<open>
  Go \<^verbatim>\<open>error\<close> values reaching the handlers: from the date parser, from the note
  store, from template execution, from the session store and from the principal store.
\<close>

datatype go_error =
    ParseError parse_error
  | StoreError string
  | TemplateError string
  | SessionError string
  | UserError db_error

text \<open>
  Modelled from the spec: \<^verbatim>\<open>repo.Note\<close> and \<^verbatim>\<open>repo.NoteRepo\<close> are declared in a file
  that is not among the sources. A note has the five fields of the spec's data model; the
  note store is the six operations the handlers call, each given by what it returns for
  its arguments, so that every statement below holds for any note store.
\<close>

type_synonym NoteID = string

record Note =
  note_id :: NoteID
  note_body :: string
  note_tags :: "string list"
  note_done :: bool
  note_created_at :: Time

record NoteRepo =
  NoteRepo_GetAllSince :: "ctx \<Rightarrow> Time \<Rightarrow> Note list \<times> go_error option"
  NoteRepo_Get :: "ctx \<Rightarrow> NoteID \<Rightarrow> Note \<times> go_error option"
  NoteRepo_ToggleDone :: "ctx \<Rightarrow> NoteID \<Rightarrow> go_error option"
  NoteRepo_Delete :: "ctx \<Rightarrow> NoteID \<Rightarrow> go_error option"
  NoteRepo_Add :: "ctx \<Rightarrow> string \<Rightarrow> string \<Rightarrow> go_error option"
  NoteRepo_Search :: "ctx \<Rightarrow> string \<Rightarrow> Note list \<times> go_error option"

record PageData =
  Notes :: "Note list"

datatype Environment = Production | Development

text \<open>
  The package-level variables (\<^verbatim>\<open>DB\<close>, \<^verbatim>\<open>Templates\<close>, \<^verbatim>\<open>ENV\<close>) and the collaborators
  the handlers reach through them: the note store on \<^verbatim>\<open>DB\<close>, the principal store of the
  \<^verbatim>\<open>go-utils\<close> package (\<^verbatim>\<open>urepo.UserRepo.Get\<close>, returning the user and an error), the
  execution of a named template, the clock, the router's path cleaning and the files
  under \<^verbatim>\<open>public/\<close>.
\<close>

record Globals =
  ENV :: Environment
  noteRepo :: NoteRepo
  urepo_Get :: "ctx \<Rightarrow> string \<Rightarrow> User \<times> go_error option"
  Execute :: "Environment \<Rightarrow> string \<Rightarrow> PageData \<Rightarrow> go_error option"
  time_Now :: Time
  cleanPath :: "string \<Rightarrow> string"
  file_exists :: "string \<Rightarrow> bool"

text \<open>
  The values of a session are of dynamic type (\<^verbatim>\<open>interface{}\<close>): a string, or anything
  else. The \<^verbatim>\<open>auth\<close> cookie of a request is absent, or does not decode, or decodes to
  the values of the session.
\<close>

datatype session_value = StringValue string | OtherValue

datatype session_cookie =
    NoCookie
  | BadCookie string
  | GoodCookie "string \<rightharpoonup> session_value"

text \<open>
  \<^verbatim>\<open>Store.Get(r, "auth")\<close> of the cookie store: a session in every case, new and empty
  when there is no cookie, empty and with the decoding error when the cookie does not
  decode.
\<close>

fun Store_Get :: "session_cookie \<Rightarrow> (string \<rightharpoonup> session_value) \<times> go_error option" where
  "Store_Get NoCookie = (Map.empty, None)"
| "Store_Get (BadCookie msg) = (Map.empty, Some (SessionError msg))"
| "Store_Get (GoodCookie vals) = (vals, None)"

record Request =
  r_Path :: string
  r_RequestURI :: string
  r_Form :: "string \<rightharpoonup> string"
  r_Context :: ctx
  r_Cookie :: session_cookie

text \<open>\<^verbatim>\<open>r.FormValue(key)\<close> and \<^verbatim>\<open>mux.Vars(r)[key]\<close>: the empty string for a missing key.\<close>

definition FormValue :: "Request \<Rightarrow> string \<Rightarrow> string" where
  "FormValue r key = (case r_Form r key of None \<Rightarrow> [] | Some v \<Rightarrow> v)"

definition Var :: "(string \<rightharpoonup> string) \<Rightarrow> string \<Rightarrow> string" where
  "Var vars key = (case vars key of None \<Rightarrow> [] | Some v \<Rightarrow> v)"

text \<open>
  What a handler does, as far as the claims go: the response it writes, the store
  operations it invokes, in order, and the errors it prints or logs.
\<close>

datatype store_call =
    Call_GetAllSince ctx Time
  | Call_Get ctx NoteID
  | Call_ToggleDone ctx NoteID
  | Call_Delete ctx NoteID
  | Call_Add ctx string string
  | Call_Search ctx string
  | Call_UserGet ctx string

datatype response =
    Redirect string nat
  | Error string nat
  | Page string PageData
  | File string
  | NotFound
  | Collaborator string

record outcome =
  response :: response
  calls :: "store_call list"
  logged :: "go_error list"

definition StatusMovedPermanently :: nat where "StatusMovedPermanently = 301"
definition StatusSeeOther :: nat where "StatusSeeOther = 303"
definition StatusTemporaryRedirect :: nat where "StatusTemporaryRedirect = 307"
definition StatusNotFound :: nat where "StatusNotFound = 404"
definition StatusInternalServerError :: nat where "StatusInternalServerError = 500"

definition respond :: "response \<Rightarrow> outcome" where
  "respond resp = \<lparr>response = resp, calls = [], logged = []\<rparr>"

text \<open>A store operation was invoked before the rest of the handler ran.\<close>

definition after_call :: "store_call \<Rightarrow> outcome \<Rightarrow> outcome" where
  "after_call c out = out\<lparr>calls := c # calls out\<rparr>"

definition handleUnexpectedError :: "go_error \<Rightarrow> outcome" where
  "handleUnexpectedError err =
     \<lparr>response = Error ''There was an unexpected error'' StatusInternalServerError,
      calls = [], logged = [err]\<rparr>"

text \<open>
  \<^verbatim>\<open>RenderTemplate\<close>: the cached template in production, a freshly parsed one in
  development; either is executed, and an error of the execution is handled as any
  other.
\<close>

definition RenderTemplate :: "Globals \<Rightarrow> string \<Rightarrow> PageData \<Rightarrow> outcome" where
  "RenderTemplate g tmpl data =
     (case Execute g (ENV g) tmpl data of
        Some err \<Rightarrow> handleUnexpectedError err
      | None \<Rightarrow> respond (Page tmpl data))"

definition HomeSinceHandler :: "Globals \<Rightarrow> (string \<rightharpoonup> string) \<Rightarrow> Request \<Rightarrow> outcome" where
  "HomeSinceHandler g vars r =
     (let date = Var vars ''date'' in
      case time_Parse_RFC3339 (date @ ''T00:00:00+11:00'') of
        Inl err \<Rightarrow> handleUnexpectedError (ParseError err)
      | Inr parsedTime \<Rightarrow>
          after_call (Call_GetAllSince (r_Context r) parsedTime)
            (case NoteRepo_GetAllSince (noteRepo g) (r_Context r) parsedTime of
               (notes, Some err) \<Rightarrow> handleUnexpectedError err
             | (notes, None) \<Rightarrow> RenderTemplate g ''home'' \<lparr>Notes = notes\<rparr>))"

definition HomeHandler :: "Globals \<Rightarrow> (string \<rightharpoonup> string) \<Rightarrow> Request \<Rightarrow> outcome" where
  "HomeHandler g vars r =
     after_call (Call_GetAllSince (r_Context r) (time_Now g))
       (case NoteRepo_GetAllSince (noteRepo g) (r_Context r) (time_Now g) of
          (notes, Some err) \<Rightarrow> handleUnexpectedError err
        | (notes, None) \<Rightarrow> RenderTemplate g ''home'' \<lparr>Notes = notes\<rparr>)"

definition SubmitHandler :: "Globals \<Rightarrow> (string \<rightharpoonup> string) \<Rightarrow> Request \<Rightarrow> outcome" where
  "SubmitHandler g vars r = RenderTemplate g ''submit'' \<lparr>Notes = []\<rparr>"

definition ViewNoteHandler :: "Globals \<Rightarrow> (string \<rightharpoonup> string) \<Rightarrow> Request \<Rightarrow> outcome" where
  "ViewNoteHandler g vars r =
     (let noteId = Var vars ''noteId'' in
      after_call (Call_Get (r_Context r) noteId)
        (case NoteRepo_Get (noteRepo g) (r_Context r) noteId of
           (note, Some err) \<Rightarrow> handleUnexpectedError err
         | (note, None) \<Rightarrow> RenderTemplate g ''view'' \<lparr>Notes = [note]\<rparr>))"

definition ToggleNoteHandler :: "Globals \<Rightarrow> (string \<rightharpoonup> string) \<Rightarrow> Request \<Rightarrow> outcome" where
  "ToggleNoteHandler g vars r =
     (let nid = FormValue r ''id'' in
      after_call (Call_ToggleDone (r_Context r) nid)
        (case NoteRepo_ToggleDone (noteRepo g) (r_Context r) nid of
           Some err \<Rightarrow> handleUnexpectedError err
         | None \<Rightarrow> respond (Redirect (''/#'' @ nid) StatusSeeOther)))"

definition DeleteNoteHandler :: "Globals \<Rightarrow> (string \<rightharpoonup> string) \<Rightarrow> Request \<Rightarrow> outcome" where
  "DeleteNoteHandler g vars r =
     (let nid = Var vars ''id'' in
      after_call (Call_Delete (r_Context r) nid)
        (case NoteRepo_Delete (noteRepo g) (r_Context r) nid of
           Some err \<Rightarrow> handleUnexpectedError err
         | None \<Rightarrow> respond (Redirect ''/'' StatusSeeOther)))"

definition AddNoteHandler :: "Globals \<Rightarrow> (string \<rightharpoonup> string) \<Rightarrow> Request \<Rightarrow> outcome" where
  "AddNoteHandler g vars r =
     (let body = FormValue r ''body''; tags = FormValue r ''tags'' in
      after_call (Call_Add (r_Context r) body tags)
        (case NoteRepo_Add (noteRepo g) (r_Context r) body tags of
           Some err \<Rightarrow> handleUnexpectedError err
         | None \<Rightarrow> respond (Redirect ''/'' StatusSeeOther)))"

definition SearchHandler :: "Globals \<Rightarrow> (string \<rightharpoonup> string) \<Rightarrow> Request \<Rightarrow> outcome" where
  "SearchHandler g vars r =
     (let query = FormValue r ''query'' in
      after_call (Call_Search (r_Context r) query)
        (case NoteRepo_Search (noteRepo g) (r_Context r) query of
           (notes, Some err) \<Rightarrow> handleUnexpectedError err
         | (notes, None) \<Rightarrow> RenderTemplate g ''home'' \<lparr>Notes = notes\<rparr>))"

definition serveResources :: "Globals \<Rightarrow> (string \<rightharpoonup> string) \<Rightarrow> Request \<Rightarrow> outcome" where
  "serveResources g vars r =
     (if file_exists g (r_Path r) then respond (File (r_Path r))
      else respond (Error (r_RequestURI r) StatusNotFound))"

text \<open>
  \<^verbatim>\<open>getUserFromSession\<close>: the user, the flag \<^verbatim>\<open>ok\<close> of the type assertion on
  \<^verbatim>\<open>Values["user_id"]\<close>, and what was done on the way: the principal store's \<^verbatim>\<open>Get\<close>
  when the assertion holds (its error is dropped), and the session error printed. The
  \<^verbatim>\<open>Printf\<close> of the session's values is not a store operation and is left out.
\<close>

definition getUserFromSession ::
  "Globals \<Rightarrow> Request \<Rightarrow> (User \<times> bool) \<times> store_call list \<times> go_error list" where
  "getUserFromSession g r =
     (case Store_Get (r_Cookie r) of
        (sessionState, err) \<Rightarrow>
          (let printed = (case err of None \<Rightarrow> [] | Some e \<Rightarrow> [e]) in
           case sessionState ''user_id'' of
             Some (StringValue userId) \<Rightarrow>
               (case urepo_Get g (r_Context r) userId of
                  (user, _) \<Rightarrow> ((user, True), [Call_UserGet (r_Context r) userId], printed))
           | _ \<Rightarrow> ((User_zero, False), [], printed)))"

text \<open>The middleware \<^verbatim>\<open>ensureAuthed\<close> around a handler \<^verbatim>\<open>next\<close>.\<close>

definition ensureAuthed :: "Globals \<Rightarrow> (Request \<Rightarrow> outcome) \<Rightarrow> Request \<Rightarrow> outcome" where
  "ensureAuthed g next r =
     (case getUserFromSession g r of
        ((_, ok), cs, printed) \<Rightarrow>
          if ok
          then (let out = next r
                in out\<lparr>calls := cs @ calls out, logged := printed @ logged out\<rparr>)
          else \<lparr>response = Redirect ''/login'' StatusTemporaryRedirect,
                calls = cs, logged = printed\<rparr>)"

subsection \<open>The routes of \<^verbatim>\<open>main\<close>\<close>

datatype route =
    Route_login
  | Route_logout
  | Route_callback
  | Route_home
  | Route_since
  | Route_submit
  | Route_search
  | Route_public
  | Route_note
  | Route_note_delete
  | Route_note_toggle

definition strip_prefix :: "string \<Rightarrow> string \<Rightarrow> string option" where
  "strip_prefix pre s =
     (if take (length pre) s = pre then Some (drop (length pre) s) else None)"

definition strip_suffix :: "string \<Rightarrow> string \<Rightarrow> string option" where
  "strip_suffix suf s =
     (if length suf \<le> length s \<and> drop (length s - length suf) s = suf
      then Some (take (length s - length suf) s) else None)"

text \<open>
  A path template with one variable, \<^verbatim>\<open>pre{name:class+}suf\<close>, is the anchored regular
  expression \<^verbatim>\<open>^pre(class+)suf$\<close>: the path is \<^verbatim>\<open>pre\<close>, one or more characters of the
  class, and \<^verbatim>\<open>suf\<close>. The default class of a variable is \<^verbatim>\<open>[^/]\<close>.
\<close>

definition match_var :: "string \<Rightarrow> (char \<Rightarrow> bool) \<Rightarrow> string \<Rightarrow> string \<Rightarrow> string option" where
  "match_var pre cls suf path =
     (case strip_prefix pre path of
        None \<Rightarrow> None
      | Some rest \<Rightarrow>
          (case strip_suffix suf rest of
             None \<Rightarrow> None
           | Some v \<Rightarrow> if v \<noteq> [] \<and> list_all cls v then Some v else None))"

text \<open>
  The routes in the order \<^verbatim>\<open>main\<close> registers them; the first that matches is taken.
  The three routes of the authentication package are on the router itself, the others on
  the subrouter that uses \<^verbatim>\<open>ensureAuthed\<close>.
\<close>

definition match_route :: "string \<Rightarrow> (route \<times> (string \<rightharpoonup> string)) option" where
  "match_route path =
     (if path = ''/login'' then Some (Route_login, Map.empty)
      else if path = ''/logout'' then Some (Route_logout, Map.empty)
      else if path = ''/callback'' then Some (Route_callback, Map.empty)
      else if path = ''/'' then Some (Route_home, Map.empty)
      else case match_var ''/t/'' (\<lambda>c. c \<noteq> CHR ''/'') [] path of
        Some date \<Rightarrow> Some (Route_since, [''date'' \<mapsto> date])
      | None \<Rightarrow>
      if path = ''/submit'' then Some (Route_submit, Map.empty)
      else if path = ''/search'' then Some (Route_search, Map.empty)
      else if strip_prefix ''/public/'' path \<noteq> None then Some (Route_public, Map.empty)
      else if path = ''/note'' then Some (Route_note, Map.empty)
      else case match_var ''/note/'' isDigit ''/delete'' path of
        Some nid \<Rightarrow> Some (Route_note_delete, [''id'' \<mapsto> nid])
      | None \<Rightarrow>
      if path = ''/note/toggle'' then Some (Route_note_toggle, Map.empty)
      else None)"

fun protected :: "route \<Rightarrow> bool" where
  "protected Route_login = False"
| "protected Route_logout = False"
| "protected Route_callback = False"
| "protected _ = True"

fun handler :: "route \<Rightarrow> Globals \<Rightarrow> (string \<rightharpoonup> string) \<Rightarrow> Request \<Rightarrow> outcome" where
  "handler Route_login = (\<lambda>g vars r. respond (Collaborator ''authentication.LoginHandler''))"
| "handler Route_logout = (\<lambda>g vars r. respond (Collaborator ''authentication.Logout''))"
| "handler Route_callback =
     (\<lambda>g vars r. respond (Collaborator ''authentication.CallbackHandler''))"
| "handler Route_home = HomeHandler"
| "handler Route_since = HomeSinceHandler"
| "handler Route_submit = SubmitHandler"
| "handler Route_search = SearchHandler"
| "handler Route_public = serveResources"
| "handler Route_note = AddNoteHandler"
| "handler Route_note_delete = DeleteNoteHandler"
| "handler Route_note_toggle = ToggleNoteHandler"

text \<open>
  The router serving a request: a path that is not clean is redirected to its clean
  form; a path no route matches is not found; a route of the subrouter runs behind
  \<^verbatim>\<open>ensureAuthed\<close>. The handlers of the authentication package are collaborators outside
  the repository and have no access to the note store; only their name is kept.
\<close>

definition ServeHTTP :: "Globals \<Rightarrow> Request \<Rightarrow> outcome" where
  "ServeHTTP g r =
     (if cleanPath g (r_Path r) \<noteq> r_Path r
      then respond (Redirect (cleanPath g (r_Path r)) StatusMovedPermanently)
      else case match_route (r_Path r) of
        None \<Rightarrow> respond NotFound
      | Some (rt, vars) \<Rightarrow>
          if protected rt then ensureAuthed g (handler rt g vars) r
          else handler rt g vars r)"


subsection \<open>Example globals and requests\<close>

definition a_note :: Note where
  "a_note = \<lparr>note_id = ''7'', note_body = ''Buy milk'', note_tags = [''errand''],
            note_done = False,
            note_created_at = \<lparr>year = 2022, month = 3, day = 7, hour = 9, minute = 30,
              second = 0, nsec = 0, zoneOffset = 39600\<rparr>\<rparr>"

text \<open>A note store in which every operation succeeds.\<close>

definition repo_ok :: NoteRepo where
  "repo_ok = \<lparr>NoteRepo_GetAllSince = (\<lambda>c t. ([a_note], None)),
             NoteRepo_Get = (\<lambda>c i. (a_note, None)),
             NoteRepo_ToggleDone = (\<lambda>c i. None),
             NoteRepo_Delete = (\<lambda>c i. None),
             NoteRepo_Add = (\<lambda>c b t. None),
             NoteRepo_Search = (\<lambda>c q. ([a_note], None))\<rparr>"

text \<open>
  Globals whose principal store knows no principal at all: every \<^verbatim>\<open>Get\<close> fails and
  returns the zero user.
\<close>

definition globals_no_users :: Globals where
  "globals_no_users =
     \<lparr>ENV = Production, noteRepo = repo_ok,
      urepo_Get = (\<lambda>c a. (User_zero, Some (UserError ErrNoRows))),
      Execute = (\<lambda>e tmpl data. None),
      time_Now = \<lparr>year = 2022, month = 3, day = 8, hour = 12, minute = 0, second = 0,
                  nsec = 0, zoneOffset = 39600\<rparr>,
      cleanPath = (\<lambda>p. p), file_exists = (\<lambda>p. False)\<rparr>"

definition request_to :: "string \<Rightarrow> session_cookie \<Rightarrow> Request" where
  "request_to path cookie =
     \<lparr>r_Path = path, r_RequestURI = path, r_Form = Map.empty,
      r_Context = RequestCtx False, r_Cookie = cookie\<rparr>"

section \<open>Properties of the principal store\<close>

lemma acquire_done: "ctx_done ctx \<Longrightarrow> acquire db ctx = Some ContextCanceled"
  by (simp add: acquire_def)

lemma UserRepo_Exists_honours_ctx:
  "ctx_done ctx \<Longrightarrow> UserRepo_Exists db ctx a = (Some ContextCanceled, False)"
  by (simp add: UserRepo_Exists_def select_exists_auth_id_def acquire_done)

lemma UserRepo_Add_honours_ctx:
  "ctx_done ctx \<Longrightarrow> UserRepo_Add db ctx u a = (Some ContextCanceled, db)"
  by (simp add: UserRepo_Add_def insert_user_def acquire_done)

lemma UserRepo_Add_ok:
  "UserRepo_Add db ctx u a = (None, db') \<Longrightarrow>
     acquire db ctx = None \<and>
     users db' = users db @ [\<lparr>row_id = next_id db, row_username = u, row_auth_id = a\<rparr>]"
  by (auto simp: UserRepo_Add_def insert_user_def split: option.splits)

lemma UserRepo_Exists_ok:
  "acquire db ctx = None \<Longrightarrow>
     UserRepo_Exists db ctx a = (None, a \<in> row_auth_id ` set (users db))"
  by (auto simp: UserRepo_Exists_def select_exists_auth_id_def)

text \<open>
  C4. Every store operation queries under the context it was given, so that a cancelled
  request aborts the call. \<^verbatim>\<open>Exists\<close> and \<^verbatim>\<open>Add\<close> do (the two lemmas above);
  \<^verbatim>\<open>Get\<close> does not: under a cancelled request context it still runs its query to the
  end and returns the row, where \<^verbatim>\<open>Exists\<close> on the same pool and context is aborted.
\<close>

theorem UserRepo_Get_ignores_ctx:
  "UserRepo_Get pool_ada (RequestCtx True) 1
     = (None, \<lparr>ID = 1, Username = ''ada'', AuthId = ''auth0|ada''\<rparr>)
   \<and> UserRepo_Exists pool_ada (RequestCtx True) ''auth0|ada'' = (Some ContextCanceled, False)
   \<and> snd (UserRepo_Add pool_ada (RequestCtx True) ''ada'' ''auth0|ada'') = pool_ada"
  by (simp add: UserRepo_Get_def UserRepo_Exists_def UserRepo_Add_def select_user_by_id_def
      select_exists_auth_id_def insert_user_def acquire_def pool_ada_def)

text \<open>
  C10. Whenever \<^verbatim>\<open>Get\<close> errs it returns the zero-valued \<^verbatim>\<open>User\<close>; when it succeeds
  the \<^verbatim>\<open>ID\<close> of the returned \<^verbatim>\<open>User\<close> is the requested id.
\<close>

theorem UserRepo_Get_result:
  "(\<forall>err u. UserRepo_Get db ctx i = (Some err, u) \<longrightarrow> u = User_zero)
   \<and> (\<forall>u. UserRepo_Get db ctx i = (None, u) \<longrightarrow> ID u = i)"
  by (auto simp: UserRepo_Get_def split: sum.splits)

theorem UserRepo_Get_result_witness:
  "UserRepo_Get pool_ada (RequestCtx False) 1
     = (None, \<lparr>ID = 1, Username = ''ada'', AuthId = ''auth0|ada''\<rparr>)
   \<and> ID (snd (UserRepo_Get pool_ada (RequestCtx False) 1)) = 1
   \<and> UserRepo_Get pool_ada (RequestCtx False) 2 = (Some ErrNoRows, User_zero)
   \<and> snd (UserRepo_Get pool_ada (RequestCtx False) 2) = User_zero"
  using UserRepo_Get_result [of pool_ada "RequestCtx False" 1]
        UserRepo_Get_result [of pool_ada "RequestCtx False" 2]
  by (simp add: UserRepo_Get_def select_user_by_id_def acquire_def pool_ada_def)

text \<open>
  C5. One row per \<^verbatim>\<open>auth_id\<close> is kept only by a caller that checks \<^verbatim>\<open>Exists\<close> before
  \<^verbatim>\<open>Add\<close>: \<^verbatim>\<open>Add\<close> is a plain insert, so on a table with one row per \<^verbatim>\<open>auth_id\<close> a
  successful \<^verbatim>\<open>Add\<close> leaves one row per \<^verbatim>\<open>auth_id\<close> exactly when \<^verbatim>\<open>Exists\<close> answered
  false for that \<^verbatim>\<open>auth_id\<close> on the table \<^verbatim>\<open>Add\<close> ran on; the store itself neither
  rejects the duplicate nor ties the check to the insert.
\<close>

theorem UserRepo_Add_unique_iff_not_Exists:
  assumes "unique_auth db" and "UserRepo_Add db ctx username authId = (None, db')"
  shows "unique_auth db' \<longleftrightarrow> UserRepo_Exists db ctx authId = (None, False)"
proof -
  from assms(2) have acq: "acquire db ctx = None"
    and rows: "users db' = users db @ [\<lparr>row_id = next_id db, row_username = username,
                                         row_auth_id = authId\<rparr>]"
    using UserRepo_Add_ok by blast+
  have "unique_auth db' \<longleftrightarrow> authId \<notin> row_auth_id ` set (users db)"
    using assms(1) by (simp add: unique_auth_def rows)
  then show ?thesis
    by (simp add: UserRepo_Exists_ok [OF acq])
qed

theorem UserRepo_Add_unique_iff_not_Exists_witness:
  "unique_auth pool_ada
   \<and> UserRepo_Exists pool_ada (RequestCtx False) ''auth0|ada'' = (None, True)
   \<and> \<not> unique_auth (snd (UserRepo_Add pool_ada (RequestCtx False) ''ada2'' ''auth0|ada''))
   \<and> UserRepo_Exists pool_ada (RequestCtx False) ''auth0|bob'' = (None, False)
   \<and> unique_auth (snd (UserRepo_Add pool_ada (RequestCtx False) ''bob'' ''auth0|bob''))"
proof -
  have u: "unique_auth pool_ada"
    by (simp add: unique_auth_def pool_ada_def)
  have a1: "UserRepo_Add pool_ada (RequestCtx False) ''ada2'' ''auth0|ada''
              = (None, snd (UserRepo_Add pool_ada (RequestCtx False) ''ada2'' ''auth0|ada''))"
    by (simp add: UserRepo_Add_def insert_user_def acquire_def pool_ada_def)
  have a2: "UserRepo_Add pool_ada (RequestCtx False) ''bob'' ''auth0|bob''
              = (None, snd (UserRepo_Add pool_ada (RequestCtx False) ''bob'' ''auth0|bob''))"
    by (simp add: UserRepo_Add_def insert_user_def acquire_def pool_ada_def)
  have e1: "UserRepo_Exists pool_ada (RequestCtx False) ''auth0|ada'' = (None, True)"
    by (simp add: UserRepo_Exists_def select_exists_auth_id_def acquire_def pool_ada_def)
  have e2: "UserRepo_Exists pool_ada (RequestCtx False) ''auth0|bob'' = (None, False)"
    by (simp add: UserRepo_Exists_def select_exists_auth_id_def acquire_def pool_ada_def)
  show ?thesis
    using u e1 e2 UserRepo_Add_unique_iff_not_Exists [OF u a1]
      UserRepo_Add_unique_iff_not_Exists [OF u a2]
    by simp
qed

text \<open>
  The check and the insert are two calls: two registrations of the same \<^verbatim>\<open>auth_id\<close>
  that both check before either inserts both see \<^verbatim>\<open>false\<close>, both insert, and the table
  ends with two rows for it.
\<close>

lemma check_then_insert_race:
  "UserRepo_Exists pool_empty (RequestCtx False) ''auth0|eve'' = (None, False)
   \<and> \<not> unique_auth (snd (UserRepo_Add
         (snd (UserRepo_Add pool_empty (RequestCtx False) ''eve'' ''auth0|eve''))
         (RequestCtx False) ''eve'' ''auth0|eve''))"
  by (simp add: UserRepo_Exists_def select_exists_auth_id_def UserRepo_Add_def insert_user_def
      acquire_def pool_empty_def unique_auth_def)


section \<open>Properties of the date parser\<close>

lemma getyear_Some:
  "getyear v = Some (y, r) \<Longrightarrow>
     \<exists>a b c d. v = a # b # c # d # r \<and> isDigit a \<and> isDigit b \<and> isDigit c \<and> isDigit d
        \<and> y = leadingInt [a, b, c, d]"
  by (auto simp: getyear_def split: list.splits if_splits)

lemma skip1_Some: "skip v [c] = Some r \<Longrightarrow> v = c # r"
  by (cases v) (auto split: if_splits)

lemma getnum_fixed_Some:
  "getnum v True = Some (n, r) \<Longrightarrow>
     \<exists>a b. v = a # b # r \<and> isDigit a \<and> isDigit b \<and> n = digit a * 10 + digit b"
  by (cases "(v, True)" rule: getnum.cases) (auto split: if_splits)

lemma getnum_Some:
  "getnum v fixed = Some (n, r) \<Longrightarrow> \<exists>p. v = p @ r \<and> (\<forall>c \<in> set p. isDigit c)"
  by (cases "(v, fixed)" rule: getnum.cases) (auto split: if_splits)

lemma isDigit_not_T: "isDigit c \<Longrightarrow> c \<noteq> CHR ''T''"
  by (auto simp: isDigit_def)

lemma fraction_consumes:
  "fraction v = (n, r) \<Longrightarrow> \<exists>p. v = p @ r \<and> CHR ''T'' \<notin> set p"
proof (cases v)
  case Nil then show "fraction v = (n, r) \<Longrightarrow> ?thesis" by (simp add: fraction_def)
next
  case (Cons c w)
  assume f: "fraction v = (n, r)"
  show ?thesis
  proof (cases w)
    case Nil with Cons f show ?thesis by (simp add: fraction_def)
  next
    case (Cons d rest)
    show ?thesis
    proof (cases "commaOrPeriod c \<and> isDigit d")
      case False
      with f \<open>v = c # w\<close> Cons show ?thesis by (auto simp: fraction_def)
    next
      case True
      with f \<open>v = c # w\<close> Cons have r: "r = dropWhile isDigit rest"
        by (auto simp: fraction_def Let_def)
      have "v = (c # d # takeWhile isDigit rest) @ r"
        using \<open>v = c # w\<close> Cons r by simp
      moreover have "CHR ''T'' \<notin> set (c # d # takeWhile isDigit rest)"
        using True isDigit_not_T by (auto simp: commaOrPeriod_def dest: set_takeWhileD)
      ultimately show ?thesis by blast
    qed
  qed
qed

lemma getzone_Some:
  "getzone v = Some (off, r) \<Longrightarrow>
     v = CHR ''Z'' # r \<or>
     (\<exists>s h1 h2 m1 m2. v = s # h1 # h2 # CHR '':'' # m1 # m2 # r
        \<and> (s = CHR ''+'' \<or> s = CHR ''-'')
        \<and> isDigit h1 \<and> isDigit h2 \<and> isDigit m1 \<and> isDigit m2)"
  by (auto simp: getzone_def split: list.splits if_splits option.splits)

lemma getzone_consumes:
  assumes "getzone v = Some (off, r)"
  shows "\<exists>p. v = p @ r \<and> CHR ''T'' \<notin> set p"
proof -
  from getzone_Some [OF assms] consider
    "v = CHR ''Z'' # r"
    | s h1 h2 m1 m2 where "v = s # h1 # h2 # CHR '':'' # m1 # m2 # r"
      "s = CHR ''+'' \<or> s = CHR ''-''" "isDigit h1" "isDigit h2" "isDigit m1" "isDigit m2"
    by blast
  then show ?thesis
  proof cases
    case 1
    then have "v = [CHR ''Z''] @ r \<and> CHR ''T'' \<notin> set [CHR ''Z'']" by simp
    then show ?thesis by blast
  next
    case 2
    then have "v = [s, h1, h2, CHR '':'', m1, m2] @ r
        \<and> CHR ''T'' \<notin> set [s, h1, h2, CHR '':'', m1, m2]"
      by (auto dest: isDigit_not_T)
    then show ?thesis by blast
  qed
qed

lemma parse_date_Some:
  assumes "parse_date v = Inr (y, m, d, r)"
  shows "\<exists>y1 y2 y3 y4 m1 m2 d1 d2.
           v = y1 # y2 # y3 # y4 # CHR ''-'' # m1 # m2 # CHR ''-'' # d1 # d2 # r
         \<and> isDigit y1 \<and> isDigit y2 \<and> isDigit y3 \<and> isDigit y4
         \<and> isDigit m1 \<and> isDigit m2 \<and> isDigit d1 \<and> isDigit d2
         \<and> y = leadingInt [y1, y2, y3, y4]
         \<and> m = digit m1 * 10 + digit m2 \<and> d = digit d1 * 10 + digit d2
         \<and> 1 \<le> m \<and> m \<le> 12"
proof -
  from assms obtain v1 v2 v3 v4 where
    a: "getyear v = Some (y, v1)" and b: "skip v1 ''-'' = Some v2"
    and c: "getnum v2 True = Some (m, v3)" and m: "\<not> (m \<le> 0 \<or> 12 < m)"
    and d: "skip v3 ''-'' = Some v4" and e: "getnum v4 True = Some (d, r)"
    by (auto simp: parse_date_def split: option.splits if_splits)
  from getyear_Some [OF a] skip1_Some [OF b] getnum_fixed_Some [OF c] skip1_Some [OF d]
    getnum_fixed_Some [OF e] m
  show ?thesis by auto
qed

lemma parse_clock_Some:
  assumes "parse_clock v = Inr x"
  shows "\<exists>q. v = CHR ''T'' # q \<and> CHR ''T'' \<notin> set q"
proof -
  from assms obtain v1 h v2 v3 mi v4 v5 s v6 ns v7 off where
    a: "skip v ''T'' = Some v1" and b: "getnum v1 False = Some (h, v2)"
    and c: "skip v2 '':'' = Some v3" and d: "getnum v3 True = Some (mi, v4)"
    and e: "skip v4 '':'' = Some v5" and f: "getnum v5 True = Some (s, v6)"
    and g: "fraction v6 = (ns, v7)" and z: "getzone v7 = Some (off, [])"
    by (auto simp: parse_clock_def split: option.splits if_splits prod.splits)
  from getnum_Some [OF b] obtain p1 where p1: "v1 = p1 @ v2" "\<forall>c \<in> set p1. isDigit c" by blast
  from getnum_Some [OF d] obtain p2 where p2: "v3 = p2 @ v4" "\<forall>c \<in> set p2. isDigit c" by blast
  from getnum_Some [OF f] obtain p3 where p3: "v5 = p3 @ v6" "\<forall>c \<in> set p3. isDigit c" by blast
  from fraction_consumes [OF g] obtain p4 where p4: "v6 = p4 @ v7" "CHR ''T'' \<notin> set p4" by blast
  from getzone_consumes [OF z] obtain p5 where p5: "v7 = p5 @ []" "CHR ''T'' \<notin> set p5" by blast
  have "v = CHR ''T'' # (p1 @ CHR '':'' # p2 @ CHR '':'' # p3 @ p4 @ p5)"
    using skip1_Some [OF a] skip1_Some [OF c] skip1_Some [OF e] p1 p2 p3 p4 p5 by simp
  moreover have "CHR ''T'' \<notin> set (p1 @ CHR '':'' # p2 @ CHR '':'' # p3 @ p4 @ p5)"
    using p1 p2 p3 p4 p5 by (auto dest: isDigit_not_T)
  ultimately show ?thesis by blast
qed

lemma parse_clock_suffix:
  "parse_clock ''T00:00:00+11:00'' = Inr (0, 0, 0, 0, 39600)"
  by (simp add: parse_clock_def fraction_def getzone_def isDigit_def digit_def commaOrPeriod_def)

lemma leadingInt4:
  "leadingInt [a, b, c, d] = digit a * 1000 + digit b * 100 + digit c * 10 + digit d"
  by (simp add: leadingInt_def)

lemma parse_date_digits:
  "\<lbrakk>isDigit y1; isDigit y2; isDigit y3; isDigit y4; isDigit m1; isDigit m2; isDigit d1;
    isDigit d2; 1 \<le> digit m1 * 10 + digit m2; digit m1 * 10 + digit m2 \<le> 12\<rbrakk> \<Longrightarrow>
   parse_date (y1 # y2 # y3 # y4 # CHR ''-'' # m1 # m2 # CHR ''-'' # d1 # d2 # r)
     = Inr (leadingInt [y1, y2, y3, y4], digit m1 * 10 + digit m2, digit d1 * 10 + digit d2, r)"
  by (simp add: parse_date_def getyear_def) arith

lemma Parse_date_midnight:
  "time_Parse_RFC3339 (date @ ''T00:00:00+11:00'') = Inr t
     \<longleftrightarrow> (\<exists>ymd. calendar_date date = Some ymd \<and> t = midnight_plus11 ymd)"
proof
  assume ok: "time_Parse_RFC3339 (date @ ''T00:00:00+11:00'') = Inr t"
  then obtain y m d rest h mi s ns off where
    pd: "parse_date (date @ ''T00:00:00+11:00'') = Inr (y, m, d, rest)"
    and pc: "parse_clock rest = Inr (h, mi, s, ns, off)"
    and dd: "\<not> (d < 1 \<or> daysIn m y < d)"
    and t: "t = \<lparr>year = y, month = m, day = d, hour = h, minute = mi, second = s,
                 nsec = ns, zoneOffset = off\<rparr>"
    by (auto simp: time_Parse_RFC3339_def split: sum.splits if_splits)
  from parse_date_Some [OF pd] obtain y1 y2 y3 y4 m1 m2 d1 d2 where
    v: "date @ ''T00:00:00+11:00''
          = y1 # y2 # y3 # y4 # CHR ''-'' # m1 # m2 # CHR ''-'' # d1 # d2 # rest"
    and dg: "isDigit y1" "isDigit y2" "isDigit y3" "isDigit y4"
            "isDigit m1" "isDigit m2" "isDigit d1" "isDigit d2"
    and vals: "y = leadingInt [y1, y2, y3, y4]" "m = digit m1 * 10 + digit m2"
              "d = digit d1 * 10 + digit d2" "1 \<le> m" "m \<le> 12"
    by blast
  from parse_clock_Some [OF pc] obtain q where
    q: "rest = CHR ''T'' # q" "CHR ''T'' \<notin> set q" by blast
  let ?P = "[y1, y2, y3, y4, CHR ''-'', m1, m2, CHR ''-'', d1, d2]"
  have noT: "CHR ''T'' \<notin> set ?P"
    using dg by (auto dest: isDigit_not_T)
  have "?P @ CHR ''T'' # q = date @ CHR ''T'' # ''00:00:00+11:00''"
    using v q by simp
  then have dq: "?P = date \<and> q = ''00:00:00+11:00''"
    using append_Cons_eq_iff [OF noT q(2)] by blast
  then have "rest = ''T00:00:00+11:00''" using q by simp
  with pc parse_clock_suffix have clock: "h = 0" "mi = 0" "s = 0" "ns = 0" "off = 39600"
    by simp_all
  have "calendar_date date = Some (y, m, d)"
    using dq dg vals dd by (auto simp: calendar_date_def leadingInt4 Let_def)
  moreover have "t = midnight_plus11 (y, m, d)"
    using t clock by (simp add: midnight_plus11_def)
  ultimately show "\<exists>ymd. calendar_date date = Some ymd \<and> t = midnight_plus11 ymd"
    by blast
next
  assume "\<exists>ymd. calendar_date date = Some ymd \<and> t = midnight_plus11 ymd"
  then obtain y m d where cd: "calendar_date date = Some (y, m, d)"
    and t: "t = midnight_plus11 (y, m, d)" by auto
  from cd obtain y1 y2 y3 y4 m1 m2 d1 d2 where
    date: "date = [y1, y2, y3, y4, CHR ''-'', m1, m2, CHR ''-'', d1, d2]"
    and dg: "isDigit y1" "isDigit y2" "isDigit y3" "isDigit y4"
            "isDigit m1" "isDigit m2" "isDigit d1" "isDigit d2"
    and vals: "y = leadingInt [y1, y2, y3, y4]" "m = digit m1 * 10 + digit m2"
              "d = digit d1 * 10 + digit d2" "1 \<le> m" "m \<le> 12" "1 \<le> d" "d \<le> daysIn m y"
    by (auto simp: calendar_date_def leadingInt4 Let_def split: list.splits if_splits)
  have "parse_date (date @ ''T00:00:00+11:00'') = Inr (y, m, d, ''T00:00:00+11:00'')"
    unfolding date vals using dg vals by (simp add: parse_date_digits)
  then show "time_Parse_RFC3339 (date @ ''T00:00:00+11:00'') = Inr t"
    using vals t
    by (simp add: time_Parse_RFC3339_def parse_clock_suffix midnight_plus11_def) arith
qed


section \<open>Properties of the handlers and of the session gate\<close>

lemma calls_handleUnexpectedError [simp]: "calls (handleUnexpectedError err) = []"
  by (simp add: handleUnexpectedError_def)

lemma calls_respond [simp]: "calls (respond resp) = []"
  by (simp add: respond_def)

lemma calls_RenderTemplate [simp]: "calls (RenderTemplate g tmpl data) = []"
  by (simp add: RenderTemplate_def split: option.splits)

lemma calls_after_call [simp]: "calls (after_call c out) = c # calls out"
  by (simp add: after_call_def)

lemma response_after_call [simp]: "response (after_call c out) = response out"
  by (simp add: after_call_def)

lemma response_respond [simp]: "response (respond resp) = resp"
  by (simp add: respond_def)

text \<open>
  The flag of \<^verbatim>\<open>getUserFromSession\<close> is the type assertion and nothing else: it holds
  exactly when the session has a string under \<^verbatim>\<open>user_id\<close>, whatever the principal
  store answers.
\<close>

lemma getUserFromSession_ok:
  "snd (fst (getUserFromSession g r))
     \<longleftrightarrow> (\<exists>u. fst (Store_Get (r_Cookie r)) ''user_id'' = Some (StringValue u))"
  by (auto simp: getUserFromSession_def Let_def
      split: prod.splits option.splits session_value.splits)

lemma getUserFromSession_not_ok_calls:
  "\<not> snd (fst (getUserFromSession g r)) \<Longrightarrow> fst (snd (getUserFromSession g r)) = []"
  by (auto simp: getUserFromSession_def Let_def
      split: prod.splits option.splits session_value.splits)

lemma ensureAuthed_not_ok:
  "\<not> snd (fst (getUserFromSession g r)) \<Longrightarrow>
     response (ensureAuthed g next r) = Redirect ''/login'' StatusTemporaryRedirect
     \<and> calls (ensureAuthed g next r) = []"
  using getUserFromSession_not_ok_calls [of g r]
  by (auto simp: ensureAuthed_def split: prod.splits)

lemma ensureAuthed_ok:
  "fst (Store_Get (r_Cookie r)) ''user_id'' = Some (StringValue u) \<Longrightarrow>
     response (ensureAuthed g next r) = response (next r)
     \<and> calls (ensureAuthed g next r) = Call_UserGet (r_Context r) u # calls (next r)"
  by (auto simp: ensureAuthed_def getUserFromSession_def Let_def split: prod.splits)

text \<open>
  When the flag of \<^verbatim>\<open>getUserFromSession\<close> is false, a request to a protected route is
  answered by a redirect to \<^verbatim>\<open>/login\<close>, and no store operation at all is invoked.
\<close>

lemma ServeHTTP_not_ok:
  assumes "cleanPath g (r_Path r) = r_Path r"
    and "match_route (r_Path r) = Some (rt, vars)"
    and "protected rt"
    and "\<not> snd (fst (getUserFromSession g r))"
  shows "response (ServeHTTP g r) = Redirect ''/login'' StatusTemporaryRedirect
         \<and> calls (ServeHTTP g r) = []"
  using assms ensureAuthed_not_ok [of g r "handler rt g vars"]
  by (simp add: ServeHTTP_def)

lemma match_route_delete_7:
  "match_route ''/note/7/delete'' = Some (Route_note_delete, [''id'' \<mapsto> ''7''])"
  by (simp add: match_route_def match_var_def strip_prefix_def strip_suffix_def isDigit_def)

lemma match_route_note: "match_route ''/note'' = Some (Route_note, Map.empty)"
  by (simp add: match_route_def match_var_def strip_prefix_def strip_suffix_def)

text \<open>
  C1. A request to a protected route whose session does not resolve to an authenticated
  principal should be redirected to \<^verbatim>\<open>/login\<close> with no note store operation invoked.
  For a session that has no string under \<^verbatim>\<open>user_id\<close> this is so (the lemma above). For
  a session whose identifier names no principal it is not: the principal store's
  \<^verbatim>\<open>Get\<close> fails, the session gate drops that error, and the request to create a note
  goes through to the note store's \<^verbatim>\<open>Add\<close> and is answered as a success.
\<close>

theorem ServeHTTP_missing_principal_reaches_store:
  "urepo_Get globals_no_users (RequestCtx False) ''auth0|gone''
     = (User_zero, Some (UserError ErrNoRows))
   \<and> match_route ''/note'' = Some (Route_note, Map.empty)
   \<and> protected Route_note
   \<and> ServeHTTP globals_no_users
       ((request_to ''/note'' (GoodCookie [''user_id'' \<mapsto> StringValue ''auth0|gone'']))
          \<lparr>r_Form := [''body'' \<mapsto> ''Buy milk'', ''tags'' \<mapsto> ''errand'']\<rparr>)
     = \<lparr>response = Redirect ''/'' 303,
        calls = [Call_UserGet (RequestCtx False) ''auth0|gone'',
                 Call_Add (RequestCtx False) ''Buy milk'' ''errand''],
        logged = []\<rparr>"
  by (simp add: ServeHTTP_def match_route_note ensureAuthed_def getUserFromSession_def
      AddNoteHandler_def after_call_def respond_def FormValue_def StatusSeeOther_def
      globals_no_users_def repo_ok_def request_to_def)

text \<open>
  C2. A session that decodes to a principal identifier whose principal is not in the
  principal store should be treated as unauthenticated. The session gate looks the identifier up
  and drops the error of the lookup: with a principal store that knows nobody, a request
  carrying such a session is let through, and the note is deleted.
\<close>

theorem ServeHTTP_admits_missing_principal:
  "urepo_Get globals_no_users (RequestCtx False) ''auth0|gone''
     = (User_zero, Some (UserError ErrNoRows))
   \<and> ServeHTTP globals_no_users
       (request_to ''/note/7/delete'' (GoodCookie [''user_id'' \<mapsto> StringValue ''auth0|gone'']))
     = \<lparr>response = Redirect ''/'' 303,
        calls = [Call_UserGet (RequestCtx False) ''auth0|gone'',
                 Call_Delete (RequestCtx False) ''7''],
        logged = []\<rparr>"
  by (simp add: ServeHTTP_def match_route_delete_7 ensureAuthed_def getUserFromSession_def
      DeleteNoteHandler_def after_call_def respond_def Var_def StatusSeeOther_def
      globals_no_users_def repo_ok_def request_to_def)

text \<open>
  C3. A request whose session cookie is absent, or does not decode, or decodes to values
  with no string under \<^verbatim>\<open>user_id\<close>, is still handled: the session gate answers with the
  redirect to \<^verbatim>\<open>/login\<close>, never with an error response, and invokes no store operation.
\<close>

theorem ensureAuthed_undecodable_session:
  assumes "r_Cookie r = NoCookie \<or> r_Cookie r = BadCookie msg
           \<or> (r_Cookie r = GoodCookie vals \<and> (\<forall>u. vals ''user_id'' \<noteq> Some (StringValue u)))"
  shows "response (ensureAuthed g next r) = Redirect ''/login'' StatusTemporaryRedirect
         \<and> (\<forall>m code. response (ensureAuthed g next r) \<noteq> Error m code)
         \<and> calls (ensureAuthed g next r) = []"
proof -
  from assms have "\<not> snd (fst (getUserFromSession g r))"
    by (auto simp: getUserFromSession_ok)
  from ensureAuthed_not_ok [OF this] show ?thesis by simp
qed

theorem ensureAuthed_undecodable_session_witness:
  "response (ensureAuthed globals_no_users (HomeHandler globals_no_users Map.empty)
       (request_to ''/'' NoCookie)) = Redirect ''/login'' 307
   \<and> response (ensureAuthed globals_no_users (HomeHandler globals_no_users Map.empty)
       (request_to ''/'' (BadCookie ''securecookie: the value is not valid'')))
       = Redirect ''/login'' 307
   \<and> response (ensureAuthed globals_no_users (HomeHandler globals_no_users Map.empty)
       (request_to ''/'' (GoodCookie [''user_id'' \<mapsto> OtherValue]))) = Redirect ''/login'' 307
   \<and> calls (ensureAuthed globals_no_users (HomeHandler globals_no_users Map.empty)
       (request_to ''/'' (GoodCookie [''user_id'' \<mapsto> OtherValue]))) = []"
proof -
  let ?next = "HomeHandler globals_no_users Map.empty"
  have a: "r_Cookie (request_to ''/'' NoCookie) = NoCookie \<or>
           r_Cookie (request_to ''/'' NoCookie) = BadCookie []
           \<or> (r_Cookie (request_to ''/'' NoCookie) = GoodCookie Map.empty
              \<and> (\<forall>u. Map.empty ''user_id'' \<noteq> Some (StringValue u)))"
    by (simp add: request_to_def)
  let ?b = "request_to ''/'' (BadCookie ''securecookie: the value is not valid'')"
  have b: "r_Cookie ?b = NoCookie \<or>
           r_Cookie ?b = BadCookie ''securecookie: the value is not valid''
           \<or> (r_Cookie ?b = GoodCookie Map.empty
              \<and> (\<forall>u. Map.empty ''user_id'' \<noteq> Some (StringValue u)))"
    by (simp add: request_to_def)
  let ?c = "request_to ''/'' (GoodCookie [''user_id'' \<mapsto> OtherValue])"
  have c: "r_Cookie ?c = NoCookie \<or> r_Cookie ?c = BadCookie []
           \<or> (r_Cookie ?c = GoodCookie [''user_id'' \<mapsto> OtherValue]
              \<and> (\<forall>u. [''user_id'' \<mapsto> OtherValue] ''user_id'' \<noteq> Some (StringValue u)))"
    by (simp add: request_to_def)
  from ensureAuthed_undecodable_session [OF a, of globals_no_users ?next]
    ensureAuthed_undecodable_session [OF b, of globals_no_users ?next]
    ensureAuthed_undecodable_session [OF c, of globals_no_users ?next]
  show ?thesis by (simp add: StatusTemporaryRedirect_def)
qed

text \<open>
  C6. Each of the three routes that change notes (create, toggle, delete) answers a
  successful store operation with a redirect (303 See Other), and none of them renders a
  page, whether the store operation succeeds or not.
\<close>

theorem mutating_handlers_redirect:
  "(NoteRepo_Add (noteRepo g) (r_Context r) (FormValue r ''body'') (FormValue r ''tags'') = None
      \<longrightarrow> response (AddNoteHandler g vars r) = Redirect ''/'' StatusSeeOther)
   \<and> (NoteRepo_ToggleDone (noteRepo g) (r_Context r) (FormValue r ''id'') = None
      \<longrightarrow> response (ToggleNoteHandler g vars r)
            = Redirect (''/#'' @ FormValue r ''id'') StatusSeeOther)
   \<and> (NoteRepo_Delete (noteRepo g) (r_Context r) (Var vars ''id'') = None
      \<longrightarrow> response (DeleteNoteHandler g vars r) = Redirect ''/'' StatusSeeOther)
   \<and> response (AddNoteHandler g vars r) \<noteq> Page tmpl data
   \<and> response (ToggleNoteHandler g vars r) \<noteq> Page tmpl data
   \<and> response (DeleteNoteHandler g vars r) \<noteq> Page tmpl data"
proof -
  have no_page: "response (handleUnexpectedError err) \<noteq> Page tmpl data" for err
    by (simp add: handleUnexpectedError_def)
  have "response (AddNoteHandler g vars r) \<noteq> Page tmpl data"
    by (simp add: AddNoteHandler_def Let_def no_page split: option.splits)
  moreover have "response (ToggleNoteHandler g vars r) \<noteq> Page tmpl data"
    by (simp add: ToggleNoteHandler_def Let_def no_page split: option.splits)
  moreover have "response (DeleteNoteHandler g vars r) \<noteq> Page tmpl data"
    by (simp add: DeleteNoteHandler_def Let_def no_page split: option.splits)
  ultimately show ?thesis
    by (simp add: AddNoteHandler_def ToggleNoteHandler_def DeleteNoteHandler_def Let_def)
qed

theorem mutating_handlers_redirect_witness:
  "response (AddNoteHandler globals_no_users Map.empty (request_to ''/note'' NoCookie))
     = Redirect ''/'' 303
   \<and> response (ToggleNoteHandler globals_no_users Map.empty
        ((request_to ''/note/toggle'' NoCookie)\<lparr>r_Form := [''id'' \<mapsto> ''7'']\<rparr>))
     = Redirect ''/#7'' 303
   \<and> response (DeleteNoteHandler globals_no_users [''id'' \<mapsto> ''7'']
        (request_to ''/note/7/delete'' NoCookie))
     = Redirect ''/'' 303"
  using mutating_handlers_redirect [of globals_no_users "request_to ''/note'' NoCookie" Map.empty
      "''home''" "\<lparr>Notes = []\<rparr>"]
    mutating_handlers_redirect [of globals_no_users
      "(request_to ''/note/toggle'' NoCookie)\<lparr>r_Form := [''id'' \<mapsto> ''7'']\<rparr>" Map.empty
      "''home''" "\<lparr>Notes = []\<rparr>"]
    mutating_handlers_redirect [of globals_no_users "request_to ''/note/7/delete'' NoCookie"
      "[''id'' \<mapsto> ''7'']" "''home''" "\<lparr>Notes = []\<rparr>"]
  by (simp add: globals_no_users_def repo_ok_def request_to_def FormValue_def Var_def
      StatusSeeOther_def)




text \<open>
  C8. The list-notes-since handler reads its \<^verbatim>\<open>date\<close> as a calendar date and asks the
  store for the notes since midnight of that date at +11:00: when \<^verbatim>\<open>date\<close> is a
  calendar date the one store operation is \<^verbatim>\<open>GetAllSince\<close> with exactly that instant,
  under the request's context, and otherwise there is none.
\<close>

theorem HomeSinceHandler_since_midnight:
  "calls (HomeSinceHandler g vars r)
     = (case calendar_date (Var vars ''date'') of
          None \<Rightarrow> []
        | Some ymd \<Rightarrow> [Call_GetAllSince (r_Context r) (midnight_plus11 ymd)])"
proof (cases "time_Parse_RFC3339 (Var vars ''date'' @ ''T00:00:00+11:00'')")
  case (Inl err)
  have "calendar_date (Var vars ''date'') = None"
  proof (cases "calendar_date (Var vars ''date'')")
    case (Some ymd)
    then have "time_Parse_RFC3339 (Var vars ''date'' @ ''T00:00:00+11:00'')
                 = Inr (midnight_plus11 ymd)"
      by (simp add: Parse_date_midnight)
    with Inl show ?thesis by simp
  qed simp
  with Inl show ?thesis
    by (simp add: HomeSinceHandler_def)
next
  case (Inr t)
  then obtain ymd where "calendar_date (Var vars ''date'') = Some ymd"
    and "t = midnight_plus11 ymd"
    using Parse_date_midnight by blast
  with Inr show ?thesis
    by (simp add: HomeSinceHandler_def split: prod.splits option.splits)
qed

theorem HomeSinceHandler_since_midnight_witness:
  "calls (HomeSinceHandler globals_no_users [''date'' \<mapsto> ''2022-03-07'']
       (request_to ''/t/2022-03-07'' NoCookie))
     = [Call_GetAllSince (RequestCtx False)
          \<lparr>year = 2022, month = 3, day = 7, hour = 0, minute = 0, second = 0, nsec = 0,
           zoneOffset = 39600\<rparr>]
   \<and> calls (HomeSinceHandler globals_no_users [''date'' \<mapsto> ''7 March'']
       (request_to ''/t/7 March'' NoCookie)) = []"
  using HomeSinceHandler_since_midnight [of globals_no_users "[''date'' \<mapsto> ''2022-03-07'']"
      "request_to ''/t/2022-03-07'' NoCookie"]
    HomeSinceHandler_since_midnight [of globals_no_users "[''date'' \<mapsto> ''7 March'']"
      "request_to ''/t/7 March'' NoCookie"]
  by (simp add: Var_def calendar_date_def midnight_plus11_def isDigit_def digit_def daysIn_def
      request_to_def)

lemma match_var_Some:
  "match_var pre cls suf path = Some v \<Longrightarrow> path = pre @ v @ suf \<and> v \<noteq> [] \<and> list_all cls v"
proof -
  assume a: "match_var pre cls suf path = Some v"
  then obtain rest where p: "strip_prefix pre path = Some rest"
    and s: "strip_suffix suf rest = Some v" and v: "v \<noteq> []" "list_all cls v"
    by (auto simp: match_var_def split: option.splits if_splits)
  from p have "path = pre @ rest"
    by (auto simp: strip_prefix_def split: if_splits) (metis append_take_drop_id)
  moreover from s have "rest = v @ suf"
    by (auto simp: strip_suffix_def split: if_splits) (metis append_take_drop_id)
  ultimately show ?thesis using v by simp
qed

lemma match_route_delete:
  "match_route path = Some (Route_note_delete, vars) \<Longrightarrow>
     \<exists>nid. vars = [''id'' \<mapsto> nid] \<and> path = ''/note/'' @ nid @ ''/delete''
       \<and> nid \<noteq> [] \<and> list_all isDigit nid"
  by (auto simp: match_route_def split: if_splits option.splits dest: match_var_Some)

lemma handler_Delete_call:
  "Call_Delete c nid \<in> set (calls (handler rt g vars r)) \<Longrightarrow>
     rt = Route_note_delete \<and> nid = Var vars ''id''"
  by (cases rt)
    (auto simp: HomeHandler_def HomeSinceHandler_def SubmitHandler_def SearchHandler_def
      serveResources_def AddNoteHandler_def DeleteNoteHandler_def ToggleNoteHandler_def Let_def
      split: sum.splits prod.splits option.splits if_splits)

lemma ensureAuthed_Delete_call:
  "Call_Delete c nid \<in> set (calls (ensureAuthed g next r)) \<Longrightarrow>
     Call_Delete c nid \<in> set (calls (next r))"
  by (auto simp: ensureAuthed_def getUserFromSession_def Let_def
      split: prod.splits option.splits session_value.splits if_splits)

text \<open>
  C9. The delete route matches only the paths \<^verbatim>\<open>/note/<id>/delete\<close> whose id is one or
  more decimal digits, and every \<^verbatim>\<open>Delete\<close> that serving a request invokes on the store
  is for such an id.
\<close>

theorem Delete_only_numeric_id:
  "(match_route path = Some (Route_note_delete, vars) \<longrightarrow>
      (\<exists>nid. vars = [''id'' \<mapsto> nid] \<and> path = ''/note/'' @ nid @ ''/delete''
         \<and> nid \<noteq> [] \<and> list_all isDigit nid))
   \<and> (Call_Delete c i \<in> set (calls (ServeHTTP g r)) \<longrightarrow> i \<noteq> [] \<and> list_all isDigit i)"
proof (intro conjI impI)
  assume "match_route path = Some (Route_note_delete, vars)"
  then show "\<exists>nid. vars = [''id'' \<mapsto> nid] \<and> path = ''/note/'' @ nid @ ''/delete''
         \<and> nid \<noteq> [] \<and> list_all isDigit nid"
    by (rule match_route_delete)
next
  assume d: "Call_Delete c i \<in> set (calls (ServeHTTP g r))"
  have "\<exists>rt vs. match_route (r_Path r) = Some (rt, vs)
           \<and> Call_Delete c i \<in> set (calls (handler rt g vs r))"
  proof (cases "match_route (r_Path r)")
    case None
    with d show ?thesis by (simp add: ServeHTTP_def split: if_splits)
  next
    case (Some m)
    obtain rt vs where "m = (rt, vs)" by (cases m)
    with d Some ensureAuthed_Delete_call [of c i g "handler rt g vs" r] show ?thesis
      by (auto simp: ServeHTTP_def split: if_splits)
  qed
  then obtain rt vs where m: "match_route (r_Path r) = Some (rt, vs)"
    and h: "Call_Delete c i \<in> set (calls (handler rt g vs r))"
    by blast
  from handler_Delete_call [OF h] have rt: "rt = Route_note_delete" and i: "i = Var vs ''id''"
    by simp_all
  from match_route_delete [OF m [unfolded rt]] obtain nid where
    "vs = [''id'' \<mapsto> nid]" "nid \<noteq> []" "list_all isDigit nid" by blast
  with i show "i \<noteq> []" and "list_all isDigit i"
    by (simp_all add: Var_def)
qed

theorem Delete_only_numeric_id_witness:
  "match_route ''/note/7/delete'' = Some (Route_note_delete, [''id'' \<mapsto> ''7''])
   \<and> Call_Delete (RequestCtx False) ''7'' \<in> set (calls (ServeHTTP globals_no_users
       (request_to ''/note/7/delete'' (GoodCookie [''user_id'' \<mapsto> StringValue ''auth0|ada'']))))
   \<and> ''7'' \<noteq> [] \<and> list_all isDigit ''7''
   \<and> match_route ''/note/7a/delete'' = None"
proof -
  let ?r = "request_to ''/note/7/delete'' (GoodCookie [''user_id'' \<mapsto> StringValue ''auth0|ada''])"
  have d: "Call_Delete (RequestCtx False) ''7'' \<in> set (calls (ServeHTTP globals_no_users ?r))"
    by (simp add: ServeHTTP_def match_route_delete_7 ensureAuthed_def getUserFromSession_def
        DeleteNoteHandler_def after_call_def respond_def Var_def
        globals_no_users_def repo_ok_def request_to_def)
  have n: "match_route ''/note/7a/delete'' = None"
    by (simp add: match_route_def match_var_def strip_prefix_def strip_suffix_def isDigit_def)
  from Delete_only_numeric_id [of "''/note/7/delete''" "[''id'' \<mapsto> ''7'']"
      "RequestCtx False" "''7''" globals_no_users ?r] d n match_route_delete_7
  show ?thesis by simp
qed


end
